theory Spec2Isabelle
  imports Complex_Main
begin

section \<open>Vizier's tuned Gaussian-process model coroutine\<close>

text \<open>
  A shallow embedding of \<^verbatim>\<open>vizier/_src/jax/models/tuned_gp_models.py\<close>: the class
  \<^verbatim>\<open>VizierGaussianProcess\<close>, its construction through \<^verbatim>\<open>build_model\<close> and the generator
  \<^verbatim>\<open>__call__\<close>, which yields one \<^verbatim>\<open>ModelParameter\<close> after the other, receives a value
  for each and returns a distribution object.  Python floats are read as reals; arrays
  handed to the generator stay symbolic.
\<close>

subsection \<open>Generators\<close>

text \<open>
  A Python generator that yields declarations of type \<open>'d\<close>, is resumed with values of
  type \<open>'v\<close> and returns an \<open>'r\<close>.  The body of a generator never loops here, so the
  resumption tree is well-founded.
\<close>

datatype ('d, 'v, 'r) gen =
  Return 'r
| Yield 'd "'v \<Rightarrow> ('d, 'v, 'r) gen"

text \<open>\<^verbatim>\<open>x = yield from g; rest(x)\<close>: the declarations of \<open>g\<close> are passed through.\<close>

primrec yield_from :: "('d, 'v, 'a) gen \<Rightarrow> ('a \<Rightarrow> ('d, 'v, 'r) gen) \<Rightarrow> ('d, 'v, 'r) gen" where
  "yield_from (Return a) f = f a"
| "yield_from (Yield d k) f = Yield d (\<lambda>v. yield_from (k v) f)"

text \<open>
  The external driver: it advances the generator, answering the \<open>i\<close>-th declaration
  with \<open>supply i\<close>.  \<open>declarations\<close> is what the run emits, \<open>outcome\<close> what it returns.
\<close>

primrec declarations :: "('d, 'v, 'r) gen \<Rightarrow> (nat \<Rightarrow> 'v) \<Rightarrow> nat \<Rightarrow> 'd list" where
  "declarations (Return r) = (\<lambda>supply i. [])"
| "declarations (Yield d k) = (\<lambda>supply i. d # declarations (k (supply i)) supply (Suc i))"

primrec outcome :: "('d, 'v, 'r) gen \<Rightarrow> (nat \<Rightarrow> 'v) \<Rightarrow> nat \<Rightarrow> 'r" where
  "outcome (Return r) = (\<lambda>supply i. r)"
| "outcome (Yield d k) = (\<lambda>supply i. outcome (k (supply i)) supply (Suc i))"

subsection \<open>Data model\<close>

datatype error = ValueError

text \<open>
  Modelled from the spec: the enumeration \<^verbatim>\<open>multitask_tuned_gp_models.MultiTaskType\<close> is
  declared in a module that is not part of this development.  Section 3 describes it as
  the closed enumeration of \<^verbatim>\<open>INDEPENDENT\<close> and the separable variants; a variant is
  identified by a number.
\<close>

datatype MultiTaskType = INDEPENDENT | SEPARABLE nat

text \<open>\<^verbatim>\<open>types.ContinuousAndCategorical\<close>: one entry for each of the two feature blocks.\<close>

record ('a, 'b) ContinuousAndCategorical =
  continuous :: 'a
  categorical :: 'b

text \<open>
  An array of rank two with its shape: \<open>rows\<close> has \<open>fst shape\<close> entries of
  \<open>snd shape\<close> elements each, so that \<^verbatim>\<open>a.shape[-1]\<close> is \<open>snd (shape a)\<close> also when
  there is no row.
\<close>

record 'a Array2 =
  shape :: "nat \<times> nat"
  rows :: "'a list list"

text \<open>
  \<^verbatim>\<open>types.PaddedArray\<close> of rank two: the rows of \<open>padded_array\<close> are the examples, and
  \<open>is_missing\<close> holds one mask for each axis, so that \<^verbatim>\<open>is_missing[1]\<close> flags the feature
  dimensions that are absent.
\<close>

record 'a PaddedArray =
  padded_array :: "'a Array2"
  is_missing :: "bool list \<times> bool list"

type_synonym ModelInput = "(real PaddedArray, int PaddedArray) ContinuousAndCategorical"

record ModelData =
  features :: ModelInput
  labels :: "real Array2"

text \<open>The fields of the class; \<^verbatim>\<open>_dim\<close> holds array widths, which are never negative.\<close>

record VizierGaussianProcess =
  dim :: "(nat, nat) ContinuousAndCategorical"
  num_metrics :: int
  use_retrying_cholesky :: bool
  boundary_epsilon :: real
  linear_coef :: "real option"
  multitask_type :: MultiTaskType

text \<open>A bound is a float or a vector of floats (\<^verbatim>\<open>np.ones(n) * c\<close>).\<close>

datatype ndarray = Scalar real | Array "real list"

text \<open>
  The initialisers: \<^verbatim>\<open>_log_uniform_init(low, high, shape)\<close> and \<^verbatim>\<open>jax.random.normal\<close>
  with the shape it is called with (\<open>[]\<close> when it is passed as it is).
\<close>

datatype init_fn =
  log_uniform_init ndarray ndarray "int list"
| jax_random_normal "int list"

text \<open>
  The regularisers, by their formula: \<^verbatim>\<open>a * log(x / b) ** 2\<close>, its sum over a vector,
  \<^verbatim>\<open>0.5 * x**2\<close> and \<^verbatim>\<open>0.5 * sum(x**2)\<close>.
\<close>

datatype regularizer =
  log_quadratic real real
| sum_log_quadratic real real
| half_square
| half_sum_square

text \<open>\<^verbatim>\<open>tfb.SoftClip(low, high, hinge_softness)\<close>, kept as the call that builds it.\<close>

datatype bijector = SoftClip ndarray ndarray real

record Constraint =
  bounds :: "ndarray \<times> ndarray"
  bijector :: bijector

record ModelParameter =
  name :: string
  init_fn :: init_fn
  constraint :: "Constraint option"
  regularizer :: regularizer

text \<open>Arrays computed from the values the driver supplies.\<close>

datatype 'v expr =
  Value 'v
| Sqrt "'v expr"
| Times real "'v expr"

text \<open>The kernels, by the constructor calls of the source.\<close>

datatype 'v kernel =
  MaternFiveHalves "'v expr"
| FeatureScaledWithCategorical "'v kernel" "'v expr" "'v expr"
| FeatureScaled "'v kernel" "'v expr"
| Linear "'v expr" "'v expr"
| ContinuousOnly "'v kernel"
| Plus "'v kernel" "'v kernel"
| MaskFeatures "'v kernel" "bool list" "bool list"

datatype 'v multitask_kernel =
  Independent int "'v kernel"
| Separable int "'v kernel" "'v list"

datatype 'v mean_fn = ConstantMeanFn "'v expr"

text \<open>
  \<^verbatim>\<open>lambda matrix: retrying_cholesky(matrix)[0]\<close> with the jitter and the iteration
  bound that \<^verbatim>\<open>functools.partial\<close> fixes.
\<close>

datatype cholesky_fn = retrying_cholesky real nat

datatype ('a, 'b) ContinuousAndCategoricalValues =
  ContinuousAndCategoricalValues (continuous_values: 'a) (categorical_values: 'b)

type_synonym index_points = "(real Array2, int Array2) ContinuousAndCategoricalValues"

datatype 'v distribution =
  GaussianProcess "'v kernel" "index_points option" 'v "cholesky_fn option" "'v mean_fn option"
| MultiTaskGaussianProcess "'v multitask_kernel" "index_points option" 'v
    "cholesky_fn option" "'v mean_fn option"

subsection \<open>Construction\<close>

text \<open>The validation method of the class, \<^verbatim>\<open>__attrs_post_init__\<close>.\<close>

definition attrs_post_init :: "VizierGaussianProcess \<Rightarrow> error + unit" where
  "attrs_post_init self = (if num_metrics self < 1 then Inl ValueError else Inr ())"

text \<open>
  The class is decorated with \<^verbatim>\<open>flax.struct.dataclass\<close>, which hands it to
  \<^verbatim>\<open>dataclasses.dataclass\<close>.  The generated \<^verbatim>\<open>__init__\<close> stores the fields and then calls
  the method named \<^verbatim>\<open>__post_init__\<close> when the class defines one; it calls no other
  method.  \<open>methods\<close> maps the names of the hooks a class defines to their bodies.
\<close>

definition dataclass_init :: "(string \<rightharpoonup> ('s \<Rightarrow> error + unit)) \<Rightarrow> 's \<Rightarrow> error + 's" where
  "dataclass_init methods self =
     (case methods ''__post_init__'' of
        None \<Rightarrow> Inr self
      | Some post_init \<Rightarrow> (case post_init self of Inl e \<Rightarrow> Inl e | Inr _ \<Rightarrow> Inr self))"

definition VizierGaussianProcess_methods ::
    "string \<rightharpoonup> (VizierGaussianProcess \<Rightarrow> error + unit)" where
  "VizierGaussianProcess_methods = [''__attrs_post_init__'' \<mapsto> attrs_post_init]"

text \<open>
  \<^verbatim>\<open>build_model\<close>, with its keyword arguments written out; \<^verbatim>\<open>_boundary_epsilon\<close> keeps
  its default \<^verbatim>\<open>1e-12\<close>.  The \<^verbatim>\<open>StochasticProcessModel\<close> wrapper adds nothing to the
  coroutine and is left out.
\<close>

definition build_model ::
    "ModelData \<Rightarrow> bool \<Rightarrow> real option \<Rightarrow> MultiTaskType \<Rightarrow> error + VizierGaussianProcess" where
  "build_model data use_retrying_cholesky' linear_coef' multitask_type' =
     dataclass_init VizierGaussianProcess_methods
       \<lparr>dim = \<lparr>continuous = snd (shape (padded_array (continuous (features data)))),
               categorical = snd (shape (padded_array (categorical (features data))))\<rparr>,
        num_metrics = int (snd (shape (labels data))),
        use_retrying_cholesky = use_retrying_cholesky',
        boundary_epsilon = 1 / 10 ^ 12,
        linear_coef = linear_coef',
        multitask_type = multitask_type'\<rparr>"

subsection \<open>The nested run for the task kernel\<close>

primrec emit_all :: "'d list \<Rightarrow> 'v list \<Rightarrow> ('d, 'v, 'v list) gen" where
  "emit_all [] acc = Return (rev acc)"
| "emit_all (d # ds) acc = Yield d (\<lambda>v. emit_all ds (v # acc))"

text \<open>
  Modelled from the spec: \<^verbatim>\<open>multitask_tuned_gp_models.build_task_kernel_scale_linop\<close> is
  defined in a module that is not part of this development.  Section 4.4 says that for a
  separable variant "a nested protocol run emits one or more task-kernel-scale parameters
  (their count and domain depend on the variant)" that parameterize the task-correlation
  operator, and section 9 that the nested run is the concatenation of a declaration
  sequence.  The table \<open>task_params\<close> gives, for a number of tasks and a variant, the first
  declaration and the ones after it; the operator is kept as the resolved values in
  the order of their declarations.
\<close>

definition build_task_kernel_scale_linop ::
    "(int \<Rightarrow> MultiTaskType \<Rightarrow> ModelParameter \<times> ModelParameter list) \<Rightarrow> int \<Rightarrow> MultiTaskType
      \<Rightarrow> (ModelParameter, 'v, 'v list) gen" where
  "build_task_kernel_scale_linop task_params num_tasks multitask_type' =
     (case task_params num_tasks multitask_type' of (d, ds) \<Rightarrow> emit_all (d # ds) [])"

subsection \<open>The coroutine\<close>

text \<open>The bounds computed at the head of \<^verbatim>\<open>__call__\<close>, each widened by \<^verbatim>\<open>eps\<close>.\<close>

definition observation_noise_bounds :: "VizierGaussianProcess \<Rightarrow> ndarray \<times> ndarray" where
  "observation_noise_bounds self =
     (let eps = boundary_epsilon self in (Scalar (1 / 10 ^ 10 - eps), Scalar (1.0 + eps)))"

definition amplitude_bounds :: "VizierGaussianProcess \<Rightarrow> ndarray \<times> ndarray" where
  "amplitude_bounds self =
     (let eps = boundary_epsilon self in (Scalar (0.001 - eps), Scalar (10.0 + eps)))"

definition continuous_length_scale_bounds :: "VizierGaussianProcess \<Rightarrow> ndarray \<times> ndarray" where
  "continuous_length_scale_bounds self =
     (let eps = boundary_epsilon self;
          continuous_ones = replicate (continuous (dim self)) (1 :: real)
      in (Array (map (\<lambda>one. one * (0.01 - eps)) continuous_ones),
          Array (map (\<lambda>one. one * 100 + eps) continuous_ones)))"

definition categorical_length_scale_bounds :: "VizierGaussianProcess \<Rightarrow> ndarray \<times> ndarray" where
  "categorical_length_scale_bounds self =
     (let eps = boundary_epsilon self;
          categorical_ones = replicate (categorical (dim self)) (1 :: real)
      in (Array (map (\<lambda>one. one * (0.01 - eps)) categorical_ones),
          Array (map (\<lambda>one. one * 100 + eps) categorical_ones)))"

text \<open>
  \<^verbatim>\<open>if inputs is not None\<close>: the kernel is wrapped in \<^verbatim>\<open>MaskFeatures\<close> with the masks of
  the feature dimensions, and the inputs are replaced by their padded arrays.
\<close>

definition mask_inputs ::
    "'v kernel \<Rightarrow> ModelInput option \<Rightarrow> 'v kernel \<times> index_points option" where
  "mask_inputs kernel' inputs =
     (case inputs of
        None \<Rightarrow> (kernel', None)
      | Some inp \<Rightarrow>
          (MaskFeatures kernel' (snd (is_missing (continuous inp)))
             (snd (is_missing (categorical inp))),
           Some (ContinuousAndCategoricalValues (padded_array (continuous inp))
             (padded_array (categorical inp)))))"

text \<open>The \<^verbatim>\<open>sp.ModelParameter\<close> objects that \<^verbatim>\<open>__call__\<close> yields, in the order of the source.\<close>

definition signal_variance_parameter :: "VizierGaussianProcess \<Rightarrow> ModelParameter" where
  "signal_variance_parameter self =
     \<lparr>name = ''signal_variance'',
      init_fn = log_uniform_init (fst (amplitude_bounds self)) (snd (amplitude_bounds self)) [],
      constraint = Some \<lparr>bounds = amplitude_bounds self,
        bijector = SoftClip (fst (amplitude_bounds self)) (snd (amplitude_bounds self)) 0.01\<rparr>,
      regularizer = log_quadratic 0.01 0.039\<rparr>"

definition continuous_length_scale_squared_parameter ::
    "VizierGaussianProcess \<Rightarrow> ModelParameter" where
  "continuous_length_scale_squared_parameter self =
     \<lparr>name = ''continuous_length_scale_squared'',
      init_fn = log_uniform_init (fst (continuous_length_scale_bounds self))
        (snd (continuous_length_scale_bounds self)) [int (continuous (dim self))],
      constraint = Some \<lparr>bounds = continuous_length_scale_bounds self,
        bijector = SoftClip (fst (continuous_length_scale_bounds self))
          (snd (continuous_length_scale_bounds self)) 0.01\<rparr>,
      regularizer = sum_log_quadratic 0.01 0.5\<rparr>"

definition categorical_length_scale_squared_parameter ::
    "VizierGaussianProcess \<Rightarrow> ModelParameter" where
  "categorical_length_scale_squared_parameter self =
     \<lparr>name = ''categorical_length_scale_squared'',
      init_fn = log_uniform_init (fst (categorical_length_scale_bounds self))
        (snd (categorical_length_scale_bounds self)) [int (categorical (dim self))],
      constraint = Some \<lparr>bounds = categorical_length_scale_bounds self,
        bijector = SoftClip (fst (categorical_length_scale_bounds self))
          (snd (categorical_length_scale_bounds self)) 0.01\<rparr>,
      regularizer = sum_log_quadratic 0.01 0.5\<rparr>"

definition linear_slope_amplitude_parameter :: "VizierGaussianProcess \<Rightarrow> ModelParameter" where
  "linear_slope_amplitude_parameter self =
     \<lparr>name = ''linear_slope_amplitude'',
      init_fn = log_uniform_init (fst (amplitude_bounds self)) (snd (amplitude_bounds self)) [],
      constraint = Some \<lparr>bounds = amplitude_bounds self,
        bijector = SoftClip (fst (amplitude_bounds self)) (snd (amplitude_bounds self)) 0.01\<rparr>,
      regularizer = log_quadratic 0.01 0.039\<rparr>"

definition linear_shift_parameter :: ModelParameter where
  "linear_shift_parameter =
     \<lparr>name = ''linear_shift'',
      init_fn = jax_random_normal [],
      constraint = None,
      regularizer = half_square\<rparr>"

definition mean_fn_parameter :: "VizierGaussianProcess \<Rightarrow> ModelParameter" where
  "mean_fn_parameter self =
     \<lparr>name = ''mean_fn'',
      init_fn = jax_random_normal (if num_metrics self = 1 then [1] else [1, num_metrics self]),
      constraint = None,
      regularizer = half_sum_square\<rparr>"

definition observation_noise_variance_parameter :: "VizierGaussianProcess \<Rightarrow> ModelParameter" where
  "observation_noise_variance_parameter self =
     \<lparr>name = ''observation_noise_variance'',
      init_fn = log_uniform_init (fst (observation_noise_bounds self))
        (snd (observation_noise_bounds self)) [],
      constraint = Some \<lparr>bounds = observation_noise_bounds self,
        bijector = SoftClip (fst (observation_noise_bounds self))
          (snd (observation_noise_bounds self)) 0.01\<rparr>,
      regularizer = log_quadratic 0.01 0.0039\<rparr>"

text \<open>
  From the declaration of the observation noise to the \<^verbatim>\<open>return\<close>: the Cholesky
  function, then the choice between the single-task and the multi-task distribution.
\<close>

definition observe_and_return ::
    "(int \<Rightarrow> MultiTaskType \<Rightarrow> ModelParameter \<times> ModelParameter list) \<Rightarrow> VizierGaussianProcess
      \<Rightarrow> 'v kernel \<Rightarrow> 'v mean_fn option \<Rightarrow> index_points option
      \<Rightarrow> (ModelParameter, 'v, 'v distribution) gen" where
  "observe_and_return task_params self kernel' mean_fn inputs =
     Yield (observation_noise_variance_parameter self)
       (\<lambda>observation_noise_variance.
          let cholesky_fn =
                (if use_retrying_cholesky self then Some (retrying_cholesky (1 / 10 ^ 4) 5)
                 else None)
          in if num_metrics self > 1 then
               (if multitask_type self = INDEPENDENT then
                  Return (MultiTaskGaussianProcess (Independent (num_metrics self) kernel')
                    inputs observation_noise_variance cholesky_fn mean_fn)
                else
                  yield_from
                    (build_task_kernel_scale_linop task_params (num_metrics self)
                       (multitask_type self))
                    (\<lambda>task_kernel_scale_linop.
                       Return (MultiTaskGaussianProcess
                         (Separable (num_metrics self) kernel' task_kernel_scale_linop)
                         inputs observation_noise_variance cholesky_fn mean_fn)))
             else
               Return (GaussianProcess kernel' inputs observation_noise_variance
                 cholesky_fn mean_fn))"

text \<open>
  \<^verbatim>\<open>__call__\<close>.  Each \<^verbatim>\<open>yield\<close> is a \<open>Yield\<close> whose continuation binds the value that the
  driver sends back; the statements between two yields are the \<open>let\<close>s in between.
  \<open>rest\<close> is the code after the \<^verbatim>\<open>if self._linear_coef is not None\<close> block, which both
  branches run.
\<close>

definition call ::
    "(int \<Rightarrow> MultiTaskType \<Rightarrow> ModelParameter \<times> ModelParameter list) \<Rightarrow> VizierGaussianProcess
      \<Rightarrow> ModelInput option \<Rightarrow> (ModelParameter, 'v, 'v distribution) gen" where
  "call task_params self inputs =
     Yield (signal_variance_parameter self)
     (\<lambda>signal_variance.
     let kernel' = MaternFiveHalves (Sqrt (Value signal_variance)) in
     Yield (continuous_length_scale_squared_parameter self)
     (\<lambda>continuous_length_scale_squared.
     Yield (categorical_length_scale_squared_parameter self)
     (\<lambda>categorical_length_scale_squared.
     let kernel' = FeatureScaledWithCategorical kernel'
                    (Sqrt (Value continuous_length_scale_squared))
                    (Sqrt (Value categorical_length_scale_squared));
         rest = (\<lambda>kernel' mean_fn.
                   case mask_inputs kernel' inputs of
                     (kernel', inputs) \<Rightarrow>
                        observe_and_return task_params self kernel' mean_fn inputs)
     in case linear_coef self of
          None \<Rightarrow> rest kernel' None
        | Some coef \<Rightarrow>
            Yield (linear_slope_amplitude_parameter self)
            (\<lambda>slopes.
            Yield linear_shift_parameter
            (\<lambda>shift.
            let kernel' = Plus kernel'
                  (ContinuousOnly
                     (FeatureScaled
                        (Linear (Times coef (Value slopes)) (Times coef (Value shift)))
                        (Sqrt (Value continuous_length_scale_squared))))
            in
            Yield (mean_fn_parameter self)
            (\<lambda>mean_fn_constant.
            rest kernel' (Some (ConstantMeanFn (Times coef (Value mean_fn_constant))))))))))"

subsection \<open>Evaluating the assembled distribution\<close>

text \<open>
  The event shape, as the docstring of \<^verbatim>\<open>__call__\<close> gives it: the number of examples
  for a \<^verbatim>\<open>GaussianProcess\<close>, followed by the number of tasks of the kernel for a
  \<^verbatim>\<open>MultiTaskGaussianProcess\<close>.  Without index points there is none.
\<close>

definition num_examples :: "index_points \<Rightarrow> nat" where
  "num_examples pts = fst (shape (continuous_values pts))"

fun num_tasks :: "'v multitask_kernel \<Rightarrow> int" where
  "num_tasks (Independent n k) = n"
| "num_tasks (Separable n k linop) = n"

fun event_shape :: "'v distribution \<Rightarrow> int list option" where
  "event_shape (GaussianProcess k pts noise chol mean) =
     map_option (\<lambda>p. [int (num_examples p)]) pts"
| "event_shape (MultiTaskGaussianProcess k pts noise chol mean) =
     map_option (\<lambda>p. [int (num_examples p), num_tasks k]) pts"

fun is_multitask :: "'v distribution \<Rightarrow> bool" where
  "is_multitask (GaussianProcess k pts noise chol mean) = False"
| "is_multitask (MultiTaskGaussianProcess k pts noise chol mean) = True"

text \<open>What the returned distribution is built from.\<close>

fun base_kernel :: "'v multitask_kernel \<Rightarrow> 'v kernel" where
  "base_kernel (Independent n k) = k"
| "base_kernel (Separable n k linop) = k"

fun distribution_kernel :: "'v distribution \<Rightarrow> 'v kernel" where
  "distribution_kernel (GaussianProcess k pts noise chol mean) = k"
| "distribution_kernel (MultiTaskGaussianProcess k pts noise chol mean) = base_kernel k"

fun distribution_mean_fn :: "'v distribution \<Rightarrow> 'v mean_fn option" where
  "distribution_mean_fn (GaussianProcess k pts noise chol mean) = mean"
| "distribution_mean_fn (MultiTaskGaussianProcess k pts noise chol mean) = mean"

fun distribution_cholesky_fn :: "'v distribution \<Rightarrow> cholesky_fn option" where
  "distribution_cholesky_fn (GaussianProcess k pts noise chol mean) = chol"
| "distribution_cholesky_fn (MultiTaskGaussianProcess k pts noise chol mean) = chol"

fun unmasked :: "'v kernel \<Rightarrow> 'v kernel" where
  "unmasked (MaskFeatures k mc mk) = k"
| "unmasked k = k"

text \<open>One example: its continuous and its categorical features.\<close>

type_synonym point = "(real list, int list) ContinuousAndCategoricalValues"

definition points :: "index_points \<Rightarrow> point list" where
  "points pts =
     map2 ContinuousAndCategoricalValues (rows (continuous_values pts))
       (rows (categorical_values pts))"

text \<open>
  Modelled from the spec: \<^verbatim>\<open>mask_features.MaskFeatures\<close> is defined in a module that is
  not part of this development.  Section 4.3 says that the dimensions marked as absent
  "are masked out of the kernel evaluation", and the comment at the call says "Ensure
  features are zero for this kernel": the wrapped kernel sees a zero in every dimension
  whose flag is set.
\<close>

definition mask_row :: "bool list \<Rightarrow> 'a::zero list \<Rightarrow> 'a list" where
  "mask_row dimension_is_missing xs =
     map2 (\<lambda>missing x. if missing then 0 else x) dimension_is_missing xs"

definition mask_point :: "bool list \<Rightarrow> bool list \<Rightarrow> point \<Rightarrow> point" where
  "mask_point mc mk x =
     ContinuousAndCategoricalValues (mask_row mc (continuous_values x))
       (mask_row mk (categorical_values x))"

text \<open>
  Modelled from the spec: \<^verbatim>\<open>continuous_only_kernel.ContinuousOnly\<close> is defined in a
  module that is not part of this development.  Section 4.3, step 3, says that the
  linear covariance term is "restricted to the continuous block only": the wrapped
  kernel is handed the continuous features of an example and none of its categorical
  ones.
\<close>

definition continuous_only :: "point \<Rightarrow> point" where
  "continuous_only x = ContinuousAndCategoricalValues (continuous_values x) []"

text \<open>
  The value of a kernel at two examples.  \<^verbatim>\<open>kernel += ...\<close> makes the sum of two
  kernels.  \<open>prim\<close> stands for the remaining kernels, those of the probability library,
  which are evaluated as they come.
\<close>

fun apply_kernel ::
    "('v kernel \<Rightarrow> point \<Rightarrow> point \<Rightarrow> real) \<Rightarrow> 'v kernel \<Rightarrow> point \<Rightarrow> point \<Rightarrow> real" where
  "apply_kernel prim (MaskFeatures k mc mk) x y =
     apply_kernel prim k (mask_point mc mk x) (mask_point mc mk y)"
| "apply_kernel prim (ContinuousOnly k) x y =
     apply_kernel prim k (continuous_only x) (continuous_only y)"
| "apply_kernel prim (Plus k k') x y = apply_kernel prim k x y + apply_kernel prim k' x y"
| "apply_kernel prim k x y = prim k x y"

definition gram :: "(point \<Rightarrow> point \<Rightarrow> real) \<Rightarrow> point list \<Rightarrow> real list list" where
  "gram k xs = map (\<lambda>x. map (\<lambda>y. k x y) xs) xs"

text \<open>
  The log-density of the labels.  A Gaussian process sees its index points through the
  matrix of kernel values only; the mean function \<^verbatim>\<open>_ConstantMeanFn\<close> of the source
  deletes its argument.  What the probability library computes from the matrix, the
  task structure, the noise, the Cholesky function and the mean function is \<open>density\<close>.
\<close>

datatype 'v covariance =
  SingleTask "real list list"
| IndependentTasks int "real list list"
| SeparableTasks int "real list list" "'v list"

fun task_covariance ::
    "('v kernel \<Rightarrow> point \<Rightarrow> point \<Rightarrow> real) \<Rightarrow> 'v multitask_kernel \<Rightarrow> point list
      \<Rightarrow> 'v covariance" where
  "task_covariance prim (Independent n k) xs = IndependentTasks n (gram (apply_kernel prim k) xs)"
| "task_covariance prim (Separable n k linop) xs =
     SeparableTasks n (gram (apply_kernel prim k) xs) linop"

fun log_prob ::
    "('v kernel \<Rightarrow> point \<Rightarrow> point \<Rightarrow> real)
      \<Rightarrow> ('v covariance \<Rightarrow> 'v \<Rightarrow> cholesky_fn option \<Rightarrow> 'v mean_fn option \<Rightarrow> real Array2 \<Rightarrow> real)
      \<Rightarrow> 'v distribution \<Rightarrow> real Array2 \<Rightarrow> real option" where
  "log_prob prim density (GaussianProcess k pts noise chol mean) y =
     map_option
       (\<lambda>p. density (SingleTask (gram (apply_kernel prim k) (points p))) noise chol mean y) pts"
| "log_prob prim density (MultiTaskGaussianProcess k pts noise chol mean) y =
     map_option (\<lambda>p. density (task_covariance prim k (points p)) noise chol mean y) pts"

text \<open>
  Two rows that have the width of the mask and are equal in every dimension that is not
  flagged; two arrays whose rows are so related.
\<close>

fun same_off_missing :: "bool list \<Rightarrow> 'a list \<Rightarrow> 'a list \<Rightarrow> bool" where
  "same_off_missing [] [] [] = True"
| "same_off_missing (m # ms) (x # xs) (y # ys) = ((m \<or> x = y) \<and> same_off_missing ms xs ys)"
| "same_off_missing ms xs ys = False"

definition perturb_missing :: "'a PaddedArray \<Rightarrow> 'a list list \<Rightarrow> 'a PaddedArray" where
  "perturb_missing a rows' = a\<lparr>padded_array := (padded_array a)\<lparr>rows := rows'\<rparr>\<rparr>"

subsection \<open>The declaration schedule\<close>

text \<open>
  The names up to the observation noise in the order of the \<^verbatim>\<open>yield\<close> statements, the
  declarations of the linear block, and the declarations of the nested run.
\<close>

definition base_schedule :: "VizierGaussianProcess \<Rightarrow> string list" where
  "base_schedule self =
     [''signal_variance'', ''continuous_length_scale_squared'',
      ''categorical_length_scale_squared'']
     @ (case linear_coef self of
          None \<Rightarrow> []
        | Some coef \<Rightarrow> [''linear_slope_amplitude'', ''linear_shift'', ''mean_fn''])
     @ [''observation_noise_variance'']"

definition linear_declarations :: "VizierGaussianProcess \<Rightarrow> ModelParameter list" where
  "linear_declarations self =
     (case linear_coef self of
        None \<Rightarrow> []
      | Some coef \<Rightarrow> [linear_slope_amplitude_parameter self, linear_shift_parameter,
          mean_fn_parameter self])"

definition task_declarations ::
    "(int \<Rightarrow> MultiTaskType \<Rightarrow> ModelParameter \<times> ModelParameter list) \<Rightarrow> VizierGaussianProcess
      \<Rightarrow> ModelParameter list" where
  "task_declarations task_params self =
     (if num_metrics self > 1 \<and> multitask_type self \<noteq> INDEPENDENT
      then fst (task_params (num_metrics self) (multitask_type self))
           # snd (task_params (num_metrics self) (multitask_type self))
      else [])"

subsection \<open>Example configurations\<close>

text \<open>
  A table for the nested run with one declaration for the variant \<open>0\<close> and two for
  every other one, a model with three metrics, and inputs of two examples whose second
  continuous dimension is absent.
\<close>

definition example_task_params :: "int \<Rightarrow> MultiTaskType \<Rightarrow> ModelParameter \<times> ModelParameter list" where
  "example_task_params n mt =
     (\<lparr>name = ''task_kernel_scale'', init_fn = jax_random_normal [n], constraint = None,
       regularizer = half_sum_square\<rparr>,
      if mt = SEPARABLE 0 then []
      else [\<lparr>name = ''task_kernel_correlation'', init_fn = jax_random_normal [n, n],
              constraint = None, regularizer = half_sum_square\<rparr>])"

definition example_gp :: VizierGaussianProcess where
  "example_gp =
     \<lparr>dim = \<lparr>continuous = 2, categorical = 1\<rparr>, num_metrics = 3,
      use_retrying_cholesky = True, boundary_epsilon = 1 / 10 ^ 12, linear_coef = Some 1,
      multitask_type = SEPARABLE 0\<rparr>"

definition example_inputs :: ModelInput where
  "example_inputs =
     \<lparr>continuous = \<lparr>padded_array = \<lparr>shape = (2, 2), rows = [[0.5, 7], [0.25, 9]]\<rparr>,
                     is_missing = ([False, False], [False, True])\<rparr>,
      categorical = \<lparr>padded_array = \<lparr>shape = (2, 1), rows = [[1], [2]]\<rparr>,
                      is_missing = ([False, False], [False])\<rparr>\<rparr>"

text \<open>
  A primitive kernel that reads every continuous feature, a density that reads every
  entry of the kernel matrix, and labels for three metrics.
\<close>

definition example_prim :: "real kernel \<Rightarrow> point \<Rightarrow> point \<Rightarrow> real" where
  "example_prim k x y = 1 + sum_list (map2 (*) (continuous_values x) (continuous_values y))"

fun example_matrix :: "real covariance \<Rightarrow> real list list" where
  "example_matrix (SingleTask g) = g"
| "example_matrix (IndependentTasks n g) = g"
| "example_matrix (SeparableTasks n g linop) = g"

definition example_density ::
    "real covariance \<Rightarrow> real \<Rightarrow> cholesky_fn option \<Rightarrow> real mean_fn option \<Rightarrow> real Array2 \<Rightarrow> real" where
  "example_density c noise chol mean y =
     noise + sum_list (map sum_list (example_matrix c)) + sum_list (map sum_list (rows y))"

definition example_labels :: "real Array2" where
  "example_labels = \<lparr>shape = (2, 3), rows = [[1, 2, 3], [4, 5, 6]]\<rparr>"

section \<open>Properties\<close>

subsection \<open>What a run emits and returns\<close>

lemma declarations_yield_from:
  "declarations (yield_from g f) supply i =
     declarations g supply i @
       declarations (f (outcome g supply i)) supply (i + length (declarations g supply i))"
  by (induction g arbitrary: i) simp_all

lemma outcome_yield_from:
  "outcome (yield_from g f) supply i =
     outcome (f (outcome g supply i)) supply (i + length (declarations g supply i))"
  by (induction g arbitrary: i) simp_all

lemma declarations_emit_all: "declarations (emit_all ds acc) supply i = ds"
  by (induction ds arbitrary: acc i) simp_all

lemma outcome_emit_all:
  "outcome (emit_all ds acc) supply i = rev acc @ map supply [i ..< i + length ds]"
  by (induction ds arbitrary: acc i) (simp_all add: upt_rec)

lemma declarations_task_run:
  "declarations (build_task_kernel_scale_linop tp n mt) supply i = fst (tp n mt) # snd (tp n mt)"
  by (simp add: build_task_kernel_scale_linop_def declarations_emit_all split: prod.split)

lemma declarations_observe_and_return:
  "declarations (observe_and_return tp self k m inp) supply i =
     observation_noise_variance_parameter self # task_declarations tp self"
  by (simp add: observe_and_return_def task_declarations_def Let_def declarations_yield_from
      declarations_task_run)

lemma declarations_call:
  "declarations (call tp self inp) supply i =
     [signal_variance_parameter self, continuous_length_scale_squared_parameter self,
      categorical_length_scale_squared_parameter self]
     @ linear_declarations self
     @ [observation_noise_variance_parameter self]
     @ task_declarations tp self"
  by (simp add: call_def Let_def linear_declarations_def declarations_observe_and_return
      split: option.split prod.split)

lemma names_linear_declarations:
  "map name (linear_declarations self) =
     (case linear_coef self of None \<Rightarrow> []
      | Some coef \<Rightarrow> [''linear_slope_amplitude'', ''linear_shift'', ''mean_fn''])"
  by (simp add: linear_declarations_def linear_slope_amplitude_parameter_def
      linear_shift_parameter_def mean_fn_parameter_def split: option.split)

lemma names_call:
  "map name (declarations (call tp self inp) supply i) =
     base_schedule self @ map name (task_declarations tp self)"
  by (simp add: declarations_call base_schedule_def names_linear_declarations
      signal_variance_parameter_def continuous_length_scale_squared_parameter_def
      categorical_length_scale_squared_parameter_def observation_noise_variance_parameter_def)

lemma base_schedule_cong:
  "(linear_coef self = None) = (linear_coef self' = None) \<Longrightarrow>
     base_schedule self = base_schedule self'"
  by (auto simp: base_schedule_def split: option.splits)

lemma outcome_task_run:
  "outcome (build_task_kernel_scale_linop tp n mt) supply i =
     map supply [i ..< i + length (fst (tp n mt) # snd (tp n mt))]"
proof (cases "tp n mt")
  case (Pair d ds)
  then show ?thesis
    unfolding build_task_kernel_scale_linop_def by (simp only: prod.case outcome_emit_all fst_conv snd_conv rev.simps append_Nil)
qed

lemma outcome_observe_and_return:
  "outcome (observe_and_return tp self k m inp) supply i =
     (let cholesky_fn =
            (if use_retrying_cholesky self then Some (retrying_cholesky (1 / 10 ^ 4) 5)
             else None)
      in if num_metrics self > 1 then
           MultiTaskGaussianProcess
             (if multitask_type self = INDEPENDENT then Independent (num_metrics self) k
              else Separable (num_metrics self) k
                (map supply [Suc i ..< Suc i + length (task_declarations tp self)]))
             inp (supply i) cholesky_fn m
         else GaussianProcess k inp (supply i) cholesky_fn m)"
  by (simp add: observe_and_return_def Let_def outcome_yield_from outcome_task_run
      task_declarations_def del: upt_Suc)

lemma outcome_call:
  "outcome (call tp self inp) supply i =
     (case linear_coef self of
        None \<Rightarrow>
          outcome (observe_and_return tp self
            (fst (mask_inputs
               (FeatureScaledWithCategorical (MaternFiveHalves (Sqrt (Value (supply i))))
                  (Sqrt (Value (supply (i + 1)))) (Sqrt (Value (supply (i + 2)))))
               inp))
            None (snd (mask_inputs (MaternFiveHalves (Sqrt (Value (supply i)))) inp)))
            supply (i + 3)
      | Some coef \<Rightarrow>
          outcome (observe_and_return tp self
            (fst (mask_inputs
               (Plus
                 (FeatureScaledWithCategorical (MaternFiveHalves (Sqrt (Value (supply i))))
                    (Sqrt (Value (supply (i + 1)))) (Sqrt (Value (supply (i + 2)))))
                 (ContinuousOnly
                    (FeatureScaled
                       (Linear (Times coef (Value (supply (i + 3))))
                          (Times coef (Value (supply (i + 4)))))
                       (Sqrt (Value (supply (i + 1)))))))
               inp))
            (Some (ConstantMeanFn (Times coef (Value (supply (i + 5))))))
            (snd (mask_inputs (MaternFiveHalves (Sqrt (Value (supply i)))) inp)))
            supply (i + 6))"
  by (simp add: call_def Let_def mask_inputs_def numeral_eq_Suc split: option.split prod.split)


text \<open>
  The Cholesky function that the distribution is given: the retrying one with jitter
  \<^verbatim>\<open>1e-4\<close> and at most five iterations when \<^verbatim>\<open>_use_retrying_cholesky\<close> is set, and the
  default of the probability library otherwise.  The retry loop itself belongs to that
  library.
\<close>

lemma cholesky_fn_configuration:
  "distribution_cholesky_fn (outcome (call tp self inp) supply 0)
     = (if use_retrying_cholesky self then Some (retrying_cholesky (1 / 10 ^ 4) 5) else None)"
  by (simp add: outcome_call outcome_observe_and_return Let_def split: option.split)

lemma build_model_total:
  "build_model data u l m =
     Inr \<lparr>dim = \<lparr>continuous = snd (shape (padded_array (continuous (features data)))),
               categorical = snd (shape (padded_array (categorical (features data))))\<rparr>,
        num_metrics = int (snd (shape (labels data))),
        use_retrying_cholesky = u,
        boundary_epsilon = 1 / 10 ^ 12,
        linear_coef = l,
        multitask_type = m\<rparr>"
  by (simp add: build_model_def dataclass_init_def VizierGaussianProcess_methods_def)

lemma outcome_call_shape:
  "event_shape (outcome (call tp self (Some inp)) supply 0 :: 'v distribution) =
     (if num_metrics self > 1
      then Some [int (fst (shape (padded_array (continuous inp)))), num_metrics self]
      else Some [int (fst (shape (padded_array (continuous inp))))])"
  by (simp add: outcome_call outcome_observe_and_return Let_def mask_inputs_def
      num_examples_def split: option.split)

lemma outcome_call_multitask:
  "is_multitask (outcome (call tp self inp) supply 0) = (num_metrics self > 1)"
  by (simp add: outcome_call outcome_observe_and_return Let_def split: option.split)

lemma bounds_eq:
  "amplitude_bounds self
     = (Scalar (0.001 - boundary_epsilon self), Scalar (10 + boundary_epsilon self))"
  "observation_noise_bounds self
     = (Scalar (1 / 10 ^ 10 - boundary_epsilon self), Scalar (1 + boundary_epsilon self))"
  "continuous_length_scale_bounds self
     = (Array (replicate (continuous (dim self)) (0.01 - boundary_epsilon self)),
        Array (replicate (continuous (dim self)) (100 + boundary_epsilon self)))"
  "categorical_length_scale_bounds self
     = (Array (replicate (categorical (dim self)) (0.01 - boundary_epsilon self)),
        Array (replicate (categorical (dim self)) (100 + boundary_epsilon self)))"
  by (simp_all add: amplitude_bounds_def observation_noise_bounds_def
      continuous_length_scale_bounds_def categorical_length_scale_bounds_def Let_def)

lemma linear_declarations_update:
  "linear_declarations (self\<lparr>linear_coef := None\<rparr>) = []"
  "linear_declarations (self\<lparr>linear_coef := Some coef\<rparr>) =
     [linear_slope_amplitude_parameter self, linear_shift_parameter, mean_fn_parameter self]"
  by (simp_all add: linear_declarations_def linear_slope_amplitude_parameter_def
      mean_fn_parameter_def amplitude_bounds_def)

lemma parameters_linear_coef_update:
  "signal_variance_parameter (self\<lparr>linear_coef := c\<rparr>) = signal_variance_parameter self"
  "continuous_length_scale_squared_parameter (self\<lparr>linear_coef := c\<rparr>)
     = continuous_length_scale_squared_parameter self"
  "categorical_length_scale_squared_parameter (self\<lparr>linear_coef := c\<rparr>)
     = categorical_length_scale_squared_parameter self"
  "observation_noise_variance_parameter (self\<lparr>linear_coef := c\<rparr>)
     = observation_noise_variance_parameter self"
  "task_declarations tp (self\<lparr>linear_coef := c\<rparr>) = task_declarations tp self"
  by (simp_all add: signal_variance_parameter_def
      continuous_length_scale_squared_parameter_def
      categorical_length_scale_squared_parameter_def observation_noise_variance_parameter_def
      amplitude_bounds_def continuous_length_scale_bounds_def
      categorical_length_scale_bounds_def observation_noise_bounds_def task_declarations_def)

lemma declarations_without_linear:
  "declarations (call tp (self\<lparr>linear_coef := None\<rparr>) inp) supply i =
     [signal_variance_parameter self, continuous_length_scale_squared_parameter self,
      categorical_length_scale_squared_parameter self,
      observation_noise_variance_parameter self] @ task_declarations tp self"
  by (simp add: declarations_call linear_declarations_update parameters_linear_coef_update)

lemma declarations_with_linear:
  "declarations (call tp (self\<lparr>linear_coef := Some coef\<rparr>) inp) supply i =
     [signal_variance_parameter self, continuous_length_scale_squared_parameter self,
      categorical_length_scale_squared_parameter self,
      linear_slope_amplitude_parameter self, linear_shift_parameter, mean_fn_parameter self,
      observation_noise_variance_parameter self] @ task_declarations tp self"
  by (simp add: declarations_call linear_declarations_update parameters_linear_coef_update)

lemma kernel_of_outcome:
  "distribution_kernel (outcome (observe_and_return tp self k m ip) supply i) = k"
  "distribution_mean_fn (outcome (observe_and_return tp self k m ip) supply i) = m"
  by (simp_all add: outcome_observe_and_return Let_def)

lemma linear_block_declarations:
  "declarations (call tp (self\<lparr>linear_coef := Some coef\<rparr>) inp) supply 0
     = take 3 (declarations (call tp (self\<lparr>linear_coef := None\<rparr>) inp) supply' 0)
       @ take 3 (drop 3 (declarations (call tp (self\<lparr>linear_coef := Some coef\<rparr>) inp) supply 0))
       @ drop 3 (declarations (call tp (self\<lparr>linear_coef := None\<rparr>) inp) supply' 0)
   \<and> map name (take 4 (declarations (call tp (self\<lparr>linear_coef := None\<rparr>) inp) supply' 0))
     = [''signal_variance'', ''continuous_length_scale_squared'',
        ''categorical_length_scale_squared'', ''observation_noise_variance'']
   \<and> map name (take 3 (drop 3
         (declarations (call tp (self\<lparr>linear_coef := Some coef\<rparr>) inp) supply 0)))
     = [''linear_slope_amplitude'', ''linear_shift'', ''mean_fn'']
   \<and> map constraint (take 3 (drop 3
         (declarations (call tp (self\<lparr>linear_coef := Some coef\<rparr>) inp) supply 0)))
     = [Some \<lparr>bounds = (Scalar (0.001 - boundary_epsilon self),
                        Scalar (10 + boundary_epsilon self)),
              bijector = SoftClip (Scalar (0.001 - boundary_epsilon self))
                        (Scalar (10 + boundary_epsilon self)) 0.01\<rparr>,
        None, None]
   \<and> init_fn (declarations (call tp (self\<lparr>linear_coef := Some coef\<rparr>) inp) supply 0 ! 5)
     = jax_random_normal (if num_metrics self = 1 then [1] else [1, num_metrics self])"
  unfolding declarations_with_linear declarations_without_linear
  by (simp add: signal_variance_parameter_def continuous_length_scale_squared_parameter_def
      categorical_length_scale_squared_parameter_def observation_noise_variance_parameter_def
      linear_slope_amplitude_parameter_def linear_shift_parameter_def mean_fn_parameter_def
      bounds_eq)

lemma unmasked_mask_inputs:
  "unmasked (fst (mask_inputs (FeatureScaledWithCategorical k a b) inp))
     = FeatureScaledWithCategorical k a b"
  "unmasked (fst (mask_inputs (Plus k k') inp)) = Plus k k'"
  by (simp_all add: mask_inputs_def split: option.split)

lemma linear_block_kernel:
  "unmasked (distribution_kernel (outcome (call tp (self\<lparr>linear_coef := None\<rparr>) inp) supply 0))
     = FeatureScaledWithCategorical (MaternFiveHalves (Sqrt (Value (supply 0))))
         (Sqrt (Value (supply 1))) (Sqrt (Value (supply 2)))
   \<and> distribution_mean_fn (outcome (call tp (self\<lparr>linear_coef := None\<rparr>) inp) supply 0) = None
   \<and> unmasked (distribution_kernel
         (outcome (call tp (self\<lparr>linear_coef := Some coef\<rparr>) inp) supply 0))
     = Plus
         (FeatureScaledWithCategorical (MaternFiveHalves (Sqrt (Value (supply 0))))
            (Sqrt (Value (supply 1))) (Sqrt (Value (supply 2))))
         (ContinuousOnly
            (FeatureScaled
               (Linear (Times coef (Value (supply 3))) (Times coef (Value (supply 4))))
               (Sqrt (Value (supply 1)))))
   \<and> distribution_mean_fn (outcome (call tp (self\<lparr>linear_coef := Some coef\<rparr>) inp) supply 0)
     = Some (ConstantMeanFn (Times coef (Value (supply 5))))"
  by (simp add: outcome_call kernel_of_outcome unmasked_mask_inputs eval_nat_numeral)

lemma linear_block_evaluation:
  "apply_kernel prim
     (unmasked (distribution_kernel (outcome (call tp (self\<lparr>linear_coef := None\<rparr>) inp) supply 0)))
     x y
     = prim (FeatureScaledWithCategorical (MaternFiveHalves (Sqrt (Value (supply 0))))
         (Sqrt (Value (supply 1))) (Sqrt (Value (supply 2)))) x y
   \<and> apply_kernel prim
     (unmasked (distribution_kernel
        (outcome (call tp (self\<lparr>linear_coef := Some coef\<rparr>) inp) supply 0)))
     x y
     = prim (FeatureScaledWithCategorical (MaternFiveHalves (Sqrt (Value (supply 0))))
         (Sqrt (Value (supply 1))) (Sqrt (Value (supply 2)))) x y
       + prim (FeatureScaled
                 (Linear (Times coef (Value (supply 3))) (Times coef (Value (supply 4))))
                 (Sqrt (Value (supply 1))))
           (ContinuousAndCategoricalValues (continuous_values x) [])
           (ContinuousAndCategoricalValues (continuous_values y) [])"
  by (simp add: outcome_call kernel_of_outcome unmasked_mask_inputs eval_nat_numeral
      continuous_only_def)

lemma mask_row_same:
  "same_off_missing ms xs ys \<Longrightarrow> mask_row ms xs = mask_row ms ys"
  by (induction ms xs ys rule: same_off_missing.induct) (auto simp: mask_row_def)

lemma mask_rows_same:
  "list_all2 (same_off_missing ms) xss yss \<Longrightarrow> map (mask_row ms) xss = map (mask_row ms) yss"
  by (induction xss yss rule: list_all2_induct) (simp_all add: mask_row_same)

lemma points_masked:
  "map (mask_point mc mk) (points (ContinuousAndCategoricalValues a b))
     = map2 ContinuousAndCategoricalValues (map (mask_row mc) (rows a)) (map (mask_row mk) (rows b))"
  by (auto simp: points_def mask_point_def zip_map_map)

lemma gram_masked:
  "gram (apply_kernel prim (MaskFeatures k mc mk)) xs
     = gram (apply_kernel prim k) (map (mask_point mc mk) xs)"
  by (simp add: gram_def comp_def)

lemma log_prob_masked:
  assumes "map (mask_point mc mk) (points p) = map (mask_point mc mk) (points p')"
  shows "log_prob prim density
           (outcome (observe_and_return tp self (MaskFeatures k mc mk) m (Some p)) supply i) y
         = log_prob prim density
           (outcome (observe_and_return tp self (MaskFeatures k mc mk) m (Some p')) supply i) y"
  using assms by (simp add: outcome_observe_and_return Let_def gram_masked)

text \<open>
  The example evaluated: the log-density at the example inputs, and at inputs whose
  first continuous dimension, which is not flagged, has another value in one example.
  A dimension that is present does change the density.
\<close>

lemma example_log_prob:
  "log_prob example_prim example_density
     (outcome (call example_task_params example_gp (Some example_inputs)) (\<lambda>i. real i) 0)
     example_labels = Some (289 / 8)"
  by (simp add: outcome_call outcome_observe_and_return Let_def mask_inputs_def example_gp_def
      example_inputs_def example_labels_def example_prim_def example_density_def
      example_task_params_def task_declarations_def points_def gram_def mask_point_def
      mask_row_def continuous_only_def)

lemma unmasked_dimension_interferes:
  "log_prob example_prim example_density
     (outcome (call example_task_params example_gp
        (Some \<lparr>continuous = perturb_missing (continuous example_inputs) [[1.5, 7], [0.25, 9]],
               categorical = categorical example_inputs\<rparr>)) (\<lambda>i. real i) 0)
     example_labels = Some (329 / 8)"
  by (simp add: outcome_call outcome_observe_and_return Let_def mask_inputs_def example_gp_def
      example_inputs_def example_labels_def example_prim_def example_density_def
      example_task_params_def task_declarations_def points_def gram_def mask_point_def
      mask_row_def perturb_missing_def continuous_only_def)

subsection \<open>Determinism of the declaration schedule\<close>

text \<open>
  C1.  For a fixed dimensionality, number of metrics, multi-task type and presence of
  the linear coefficient, two runs of \<^verbatim>\<open>__call__\<close> emit declarations with the same names
  in the same order and in the same number, whatever values the driver supplies,
  whatever the feature data are, and whatever the other fields of the model hold.
\<close>

theorem declaration_schedule_deterministic:
  assumes "dim self = dim self'" and "num_metrics self = num_metrics self'"
    and "multitask_type self = multitask_type self'"
    and "(linear_coef self = None) = (linear_coef self' = None)"
  shows "map name (declarations (call tp self inp) supply 0) =
           map name (declarations (call tp self' inp') supply' 0)
         \<and> length (declarations (call tp self inp) supply 0) =
           length (declarations (call tp self' inp') supply' 0)"
proof -
  have t: "task_declarations tp self = task_declarations tp self'"
    using assms(2,3) by (simp add: task_declarations_def)
  have n: "map name (declarations (call tp self inp) supply 0) =
           map name (declarations (call tp self' inp') supply' 0)"
    by (simp only: names_call t base_schedule_cong [OF assms(4)])
  from n show ?thesis by (simp only: map_eq_imp_length_eq [OF n] simp_thms)
qed

theorem declaration_schedule_deterministic_witness:
  "dim example_gp = dim (example_gp\<lparr>boundary_epsilon := 0, linear_coef := Some 2\<rparr>)
   \<and> num_metrics example_gp
       = num_metrics (example_gp\<lparr>boundary_epsilon := 0, linear_coef := Some 2\<rparr>)
   \<and> multitask_type example_gp
       = multitask_type (example_gp\<lparr>boundary_epsilon := 0, linear_coef := Some 2\<rparr>)
   \<and> (linear_coef example_gp = None)
       = (linear_coef (example_gp\<lparr>boundary_epsilon := 0, linear_coef := Some 2\<rparr>) = None)
   \<and> map name (declarations (call example_task_params example_gp None) (\<lambda>i. 0 :: real) 0) =
       map name (declarations
         (call example_task_params (example_gp\<lparr>boundary_epsilon := 0, linear_coef := Some 2\<rparr>)
            (Some example_inputs)) (\<lambda>i. real i) 0)"
  using declaration_schedule_deterministic
    [of example_gp "example_gp\<lparr>boundary_epsilon := 0, linear_coef := Some 2\<rparr>"
        example_task_params None "\<lambda>i. 0 :: real" "Some example_inputs" "\<lambda>i. real i"]
  by (simp add: example_gp_def)

subsection \<open>Validation of the number of metrics\<close>

text \<open>
  C2.  The claim: constructing the model with fewer than one metric raises a
  \<^verbatim>\<open>ValueError\<close> before any declaration is emitted.  The class defines the check under
  the name \<^verbatim>\<open>__attrs_post_init__\<close>, which the dataclass constructor never calls.  For
  labels of shape \<open>(2, 0)\<close>, \<^verbatim>\<open>build_model\<close> returns a coroutine with no metric; the
  check, had it been called, rejects that coroutine; and the coroutine emits its
  declarations.
\<close>

theorem build_model_accepts_zero_metrics:
  "build_model \<lparr>features = example_inputs, labels = \<lparr>shape = (2, 0), rows = [[], []]\<rparr>\<rparr>
       True None INDEPENDENT
     = Inr \<lparr>dim = \<lparr>continuous = 2, categorical = 1\<rparr>, num_metrics = 0,
            use_retrying_cholesky = True, boundary_epsilon = 1 / 10 ^ 12, linear_coef = None,
            multitask_type = INDEPENDENT\<rparr>
   \<and> attrs_post_init \<lparr>dim = \<lparr>continuous = 2, categorical = 1\<rparr>, num_metrics = 0,
            use_retrying_cholesky = True, boundary_epsilon = 1 / 10 ^ 12, linear_coef = None,
            multitask_type = INDEPENDENT\<rparr> = Inl ValueError
   \<and> map name (declarations
         (call example_task_params
            \<lparr>dim = \<lparr>continuous = 2, categorical = 1\<rparr>, num_metrics = 0,
             use_retrying_cholesky = True, boundary_epsilon = 1 / 10 ^ 12, linear_coef = None,
             multitask_type = INDEPENDENT\<rparr> (Some example_inputs)) (\<lambda>i. 1 :: real) 0)
       = [''signal_variance'', ''continuous_length_scale_squared'',
          ''categorical_length_scale_squared'', ''observation_noise_variance'']"
  by (simp add: build_model_total attrs_post_init_def example_inputs_def names_call
      base_schedule_def task_declarations_def)

subsection \<open>The shape of the events\<close>

text \<open>
  C4.  With exactly one metric the returned distribution is a single-task
  \<^verbatim>\<open>GaussianProcess\<close> whose event shape is \<open>[N]\<close>, \<open>N\<close> being the number of examples of
  the inputs; with more than one metric it is a \<^verbatim>\<open>MultiTaskGaussianProcess\<close> whose event
  shape is \<open>[N, num_metrics]\<close>.
\<close>

theorem event_shape_selection:
  "(num_metrics self = 1 \<longrightarrow>
      \<not> is_multitask (outcome (call tp self (Some inp)) supply 0)
      \<and> event_shape (outcome (call tp self (Some inp)) supply 0)
          = Some [int (fst (shape (padded_array (continuous inp))))])
   \<and> (num_metrics self > 1 \<longrightarrow>
      is_multitask (outcome (call tp self (Some inp)) supply 0)
      \<and> event_shape (outcome (call tp self (Some inp)) supply 0)
          = Some [int (fst (shape (padded_array (continuous inp)))), num_metrics self])"
  by (simp add: outcome_call_shape outcome_call_multitask)

theorem event_shape_selection_witness:
  "num_metrics (example_gp\<lparr>num_metrics := 1\<rparr>) = 1
   \<and> event_shape (outcome (call example_task_params (example_gp\<lparr>num_metrics := 1\<rparr>)
         (Some example_inputs)) (\<lambda>i. real i) 0) = Some [2]
   \<and> num_metrics example_gp > 1
   \<and> event_shape (outcome (call example_task_params example_gp (Some example_inputs))
         (\<lambda>i. real i) 0) = Some [2, 3]"
  using event_shape_selection
      [of "example_gp\<lparr>num_metrics := 1\<rparr>" example_task_params example_inputs "\<lambda>i. real i"]
    event_shape_selection [of example_gp example_task_params example_inputs "\<lambda>i. real i"]
  by (simp add: example_gp_def example_inputs_def)

subsection \<open>The declarations of the multi-task kernels\<close>

text \<open>
  C5.  With more than one metric, the \<^verbatim>\<open>INDEPENDENT\<close> type emits the base schedule and
  nothing else, the last declaration being the observation noise variance.  A separable
  variant emits the same declarations followed at once by those of the nested run of
  \<^verbatim>\<open>build_task_kernel_scale_linop\<close>, which makes its run strictly longer.
\<close>

theorem multitask_declarations:
  assumes "num_metrics self > 1"
  shows "map name (declarations (call tp (self\<lparr>multitask_type := INDEPENDENT\<rparr>) inp) supply 0)
           = base_schedule self
         \<and> name (last (declarations (call tp (self\<lparr>multitask_type := INDEPENDENT\<rparr>) inp)
               supply 0)) = ''observation_noise_variance''
         \<and> declarations (call tp (self\<lparr>multitask_type := SEPARABLE v\<rparr>) inp) supply 0
           = declarations (call tp (self\<lparr>multitask_type := INDEPENDENT\<rparr>) inp) supply 0
             @ declarations
                 (build_task_kernel_scale_linop tp (num_metrics self) (SEPARABLE v)
                    :: (ModelParameter, 'v, 'v list) gen)
                 supply (length (base_schedule self))
         \<and> length (declarations (call tp (self\<lparr>multitask_type := INDEPENDENT\<rparr>) inp) supply 0)
           < length (declarations (call tp (self\<lparr>multitask_type := SEPARABLE v\<rparr>) inp)
               supply 0)"
proof -
  have i: "task_declarations tp (self\<lparr>multitask_type := INDEPENDENT\<rparr>) = []"
    by (simp add: task_declarations_def)
  have s: "task_declarations tp (self\<lparr>multitask_type := SEPARABLE v\<rparr>)
             = fst (tp (num_metrics self) (SEPARABLE v)) # snd (tp (num_metrics self) (SEPARABLE v))"
    using assms by (simp add: task_declarations_def)
  have b: "base_schedule (self\<lparr>multitask_type := INDEPENDENT\<rparr>) = base_schedule self"
    by (simp add: base_schedule_def)
  have p: "\<And>m. linear_declarations (self\<lparr>multitask_type := m\<rparr>) = linear_declarations self"
    "\<And>m. signal_variance_parameter (self\<lparr>multitask_type := m\<rparr>)
        = signal_variance_parameter self"
    "\<And>m. continuous_length_scale_squared_parameter (self\<lparr>multitask_type := m\<rparr>)
        = continuous_length_scale_squared_parameter self"
    "\<And>m. categorical_length_scale_squared_parameter (self\<lparr>multitask_type := m\<rparr>)
        = categorical_length_scale_squared_parameter self"
    "\<And>m. observation_noise_variance_parameter (self\<lparr>multitask_type := m\<rparr>)
        = observation_noise_variance_parameter self"
    by (simp_all add: linear_declarations_def signal_variance_parameter_def
        continuous_length_scale_squared_parameter_def
        categorical_length_scale_squared_parameter_def linear_slope_amplitude_parameter_def
        mean_fn_parameter_def observation_noise_variance_parameter_def amplitude_bounds_def
        continuous_length_scale_bounds_def categorical_length_scale_bounds_def
        observation_noise_bounds_def split: option.split)
  have 1: "map name (declarations (call tp (self\<lparr>multitask_type := INDEPENDENT\<rparr>) inp) supply 0)
           = base_schedule self"
    by (simp add: names_call i b)
  have 2: "name (last (declarations (call tp (self\<lparr>multitask_type := INDEPENDENT\<rparr>) inp)
               supply 0)) = ''observation_noise_variance''"
    by (simp add: declarations_call i observation_noise_variance_parameter_def)
  have 3: "declarations (call tp (self\<lparr>multitask_type := SEPARABLE v\<rparr>) inp) supply 0
           = declarations (call tp (self\<lparr>multitask_type := INDEPENDENT\<rparr>) inp) supply 0
             @ declarations
                 (build_task_kernel_scale_linop tp (num_metrics self) (SEPARABLE v)
                    :: (ModelParameter, 'v, 'v list) gen)
                 supply (length (base_schedule self))"
    by (simp add: declarations_call i s p declarations_task_run)
  have 4: "length (declarations (call tp (self\<lparr>multitask_type := INDEPENDENT\<rparr>) inp) supply 0)
           < length (declarations (call tp (self\<lparr>multitask_type := SEPARABLE v\<rparr>) inp)
               supply 0)"
    by (simp add: 3 declarations_task_run)
  from 1 2 3 4 show ?thesis by (simp only: simp_thms)
qed

theorem multitask_declarations_witness:
  "num_metrics example_gp > 1
   \<and> map name (declarations (call example_task_params
         (example_gp\<lparr>multitask_type := INDEPENDENT\<rparr>) (Some example_inputs)) (\<lambda>i. real i) 0)
       = [''signal_variance'', ''continuous_length_scale_squared'',
          ''categorical_length_scale_squared'', ''linear_slope_amplitude'', ''linear_shift'',
          ''mean_fn'', ''observation_noise_variance'']
   \<and> length (declarations (call example_task_params
         (example_gp\<lparr>multitask_type := INDEPENDENT\<rparr>) (Some example_inputs)) (\<lambda>i. real i) 0)
       < length (declarations (call example_task_params
         (example_gp\<lparr>multitask_type := SEPARABLE 2\<rparr>) (Some example_inputs)) (\<lambda>i. real i) 0)"
proof -
  have h: "num_metrics example_gp > 1"
    by (simp add: example_gp_def)
  have b: "base_schedule example_gp
      = [''signal_variance'', ''continuous_length_scale_squared'',
         ''categorical_length_scale_squared'', ''linear_slope_amplitude'', ''linear_shift'',
         ''mean_fn'', ''observation_noise_variance'']"
    by (simp add: base_schedule_def example_gp_def)
  note t = multitask_declarations
      [OF h, of example_task_params "Some example_inputs" "\<lambda>i. real i" 2]
  from t have n: "map name (declarations (call example_task_params
         (example_gp\<lparr>multitask_type := INDEPENDENT\<rparr>) (Some example_inputs)) (\<lambda>i. real i) 0)
       = base_schedule example_gp"
    by (rule conjunct1)
  from t have l: "length (declarations (call example_task_params
         (example_gp\<lparr>multitask_type := INDEPENDENT\<rparr>) (Some example_inputs)) (\<lambda>i. real i) 0)
       < length (declarations (call example_task_params
         (example_gp\<lparr>multitask_type := SEPARABLE 2\<rparr>) (Some example_inputs)) (\<lambda>i. real i) 0)"
    by blast
  from h n l show ?thesis by (simp only: b simp_thms)
qed

subsection \<open>A single metric ignores the multi-task type\<close>

text \<open>
  C10.  With exactly one metric the multi-task type has no effect: the generators for
  any two types are equal, so they emit the same declarations and return the same
  distribution for every driver; the declarations are the base schedule, without any
  declaration for a task kernel, and the distribution is a single-task
  \<^verbatim>\<open>GaussianProcess\<close>.
\<close>

theorem multitask_type_irrelevant_for_one_metric:
  assumes "num_metrics self = 1"
  shows "(call tp (self\<lparr>multitask_type := mt\<rparr>) inp :: (ModelParameter, 'v, 'v distribution) gen)
           = call tp (self\<lparr>multitask_type := mt'\<rparr>) inp
         \<and> map name (declarations
               (call tp (self\<lparr>multitask_type := mt\<rparr>) inp
                  :: (ModelParameter, 'v, 'v distribution) gen) supply 0)
             = base_schedule self
         \<and> \<not> is_multitask (outcome (call tp (self\<lparr>multitask_type := mt\<rparr>) inp) supply 0)"
proof -
  have o: "\<And>m k mf ip. (observe_and_return tp (self\<lparr>multitask_type := m\<rparr>) k mf ip
             :: (ModelParameter, 'v, 'v distribution) gen)
           = Yield (observation_noise_variance_parameter self)
               (\<lambda>v. Return (GaussianProcess k ip v
                  (if use_retrying_cholesky self then Some (retrying_cholesky (1 / 10 ^ 4) 5)
                   else None) mf))"
    using assms
    by (simp add: observe_and_return_def Let_def observation_noise_variance_parameter_def
        observation_noise_bounds_def)
  have "(call tp (self\<lparr>multitask_type := mt\<rparr>) inp :: (ModelParameter, 'v, 'v distribution) gen)
           = call tp (self\<lparr>multitask_type := mt'\<rparr>) inp"
    by (cases "linear_coef self")
      (simp_all add: call_def o Let_def signal_variance_parameter_def
        continuous_length_scale_squared_parameter_def
        categorical_length_scale_squared_parameter_def linear_slope_amplitude_parameter_def
        mean_fn_parameter_def amplitude_bounds_def continuous_length_scale_bounds_def
        categorical_length_scale_bounds_def)
  moreover have "map name (declarations
               (call tp (self\<lparr>multitask_type := mt\<rparr>) inp
                  :: (ModelParameter, 'v, 'v distribution) gen) supply 0)
             = base_schedule self"
    using assms by (simp add: names_call task_declarations_def base_schedule_def)
  moreover have "\<not> is_multitask (outcome (call tp (self\<lparr>multitask_type := mt\<rparr>) inp) supply 0)"
    using assms by (simp add: outcome_call outcome_observe_and_return Let_def split: option.split)
  ultimately show ?thesis by (simp only: simp_thms)
qed

theorem multitask_type_irrelevant_for_one_metric_witness:
  "num_metrics (example_gp\<lparr>num_metrics := 1\<rparr>) = 1
   \<and> (call example_task_params (example_gp\<lparr>num_metrics := 1, multitask_type := INDEPENDENT\<rparr>)
         (Some example_inputs) :: (ModelParameter, real, real distribution) gen)
       = call example_task_params (example_gp\<lparr>num_metrics := 1, multitask_type := SEPARABLE 2\<rparr>)
           (Some example_inputs)"
proof -
  have h: "num_metrics (example_gp\<lparr>num_metrics := 1\<rparr>) = 1"
    by simp
  from h multitask_type_irrelevant_for_one_metric
      [OF h, of example_task_params INDEPENDENT "Some example_inputs" "SEPARABLE 2"
         "\<lambda>i. real i"]
  show ?thesis by simp
qed

subsection \<open>The linear block\<close>

text \<open>
  C7.  The claim gives the slope amplitude the domain \<open>[1e-3, 10]\<close>; the source
  declares it with the amplitude bounds, which are moved outwards by the boundary
  epsilon (\<open>linear_slope_domain_counterexample\<close> below, at a model that
  \<^verbatim>\<open>build_model\<close> returns).  As amended: the declarations of a model with a linear
  coefficient are those of the same model without one, with exactly three more
  declarations between the categorical length scale and the observation noise:
  \<^verbatim>\<open>linear_slope_amplitude\<close>, constrained to \<open>[1e-3 - eps, 10 + eps]\<close> through a
  \<^verbatim>\<open>SoftClip\<close> with the same bounds, then the unconstrained \<^verbatim>\<open>linear_shift\<close>, then the
  unconstrained \<^verbatim>\<open>mean_fn\<close> of shape \<open>[1]\<close> for one metric and \<open>[1, num_metrics]\<close>
  otherwise.  Without a coefficient the kernel has no linear term and there is no mean
  function; with one, the kernel is the sum of the scaled Matern kernel and of a linear
  kernel inside \<^verbatim>\<open>ContinuousOnly\<close>, whose value is computed from the continuous
  features of the two examples alone.
\<close>

theorem linear_term:
  "(declarations (call tp (self\<lparr>linear_coef := Some coef\<rparr>) inp) supply 0
     = take 3 (declarations (call tp (self\<lparr>linear_coef := None\<rparr>) inp) supply' 0)
       @ take 3 (drop 3 (declarations (call tp (self\<lparr>linear_coef := Some coef\<rparr>) inp) supply 0))
       @ drop 3 (declarations (call tp (self\<lparr>linear_coef := None\<rparr>) inp) supply' 0)
   \<and> map name (take 4 (declarations (call tp (self\<lparr>linear_coef := None\<rparr>) inp) supply' 0))
     = [''signal_variance'', ''continuous_length_scale_squared'',
        ''categorical_length_scale_squared'', ''observation_noise_variance'']
   \<and> map name (take 3 (drop 3
         (declarations (call tp (self\<lparr>linear_coef := Some coef\<rparr>) inp) supply 0)))
     = [''linear_slope_amplitude'', ''linear_shift'', ''mean_fn'']
   \<and> map constraint (take 3 (drop 3
         (declarations (call tp (self\<lparr>linear_coef := Some coef\<rparr>) inp) supply 0)))
     = [Some \<lparr>bounds = (Scalar (0.001 - boundary_epsilon self),
                        Scalar (10 + boundary_epsilon self)),
              bijector = SoftClip (Scalar (0.001 - boundary_epsilon self))
                        (Scalar (10 + boundary_epsilon self)) 0.01\<rparr>,
        None, None]
   \<and> init_fn (declarations (call tp (self\<lparr>linear_coef := Some coef\<rparr>) inp) supply 0 ! 5)
     = jax_random_normal (if num_metrics self = 1 then [1] else [1, num_metrics self]))
   \<and> (unmasked (distribution_kernel (outcome (call tp (self\<lparr>linear_coef := None\<rparr>) inp) supply 0))
     = FeatureScaledWithCategorical (MaternFiveHalves (Sqrt (Value (supply 0))))
         (Sqrt (Value (supply 1))) (Sqrt (Value (supply 2)))
   \<and> distribution_mean_fn (outcome (call tp (self\<lparr>linear_coef := None\<rparr>) inp) supply 0) = None
   \<and> unmasked (distribution_kernel
         (outcome (call tp (self\<lparr>linear_coef := Some coef\<rparr>) inp) supply 0))
     = Plus
         (FeatureScaledWithCategorical (MaternFiveHalves (Sqrt (Value (supply 0))))
            (Sqrt (Value (supply 1))) (Sqrt (Value (supply 2))))
         (ContinuousOnly
            (FeatureScaled
               (Linear (Times coef (Value (supply 3))) (Times coef (Value (supply 4))))
               (Sqrt (Value (supply 1)))))
   \<and> distribution_mean_fn (outcome (call tp (self\<lparr>linear_coef := Some coef\<rparr>) inp) supply 0)
     = Some (ConstantMeanFn (Times coef (Value (supply 5)))))
   \<and> (apply_kernel prim
     (unmasked (distribution_kernel (outcome (call tp (self\<lparr>linear_coef := None\<rparr>) inp) supply 0)))
     x y
     = prim (FeatureScaledWithCategorical (MaternFiveHalves (Sqrt (Value (supply 0))))
         (Sqrt (Value (supply 1))) (Sqrt (Value (supply 2)))) x y
   \<and> apply_kernel prim
     (unmasked (distribution_kernel
        (outcome (call tp (self\<lparr>linear_coef := Some coef\<rparr>) inp) supply 0)))
     x y
     = prim (FeatureScaledWithCategorical (MaternFiveHalves (Sqrt (Value (supply 0))))
         (Sqrt (Value (supply 1))) (Sqrt (Value (supply 2)))) x y
       + prim (FeatureScaled
                 (Linear (Times coef (Value (supply 3))) (Times coef (Value (supply 4))))
                 (Sqrt (Value (supply 1))))
           (ContinuousAndCategoricalValues (continuous_values x) [])
           (ContinuousAndCategoricalValues (continuous_values y) []))"
  by (rule conjI [OF linear_block_declarations
        conjI [OF linear_block_kernel linear_block_evaluation]])

theorem linear_term_witness:
  "map name (declarations (call example_task_params (example_gp\<lparr>linear_coef := None\<rparr>) None)
       (\<lambda>i. real i) 0)
     = [''signal_variance'', ''continuous_length_scale_squared'',
        ''categorical_length_scale_squared'', ''observation_noise_variance'',
        ''task_kernel_scale'']
   \<and> map name (declarations (call example_task_params (example_gp\<lparr>linear_coef := Some 2\<rparr>) None)
       (\<lambda>i. real i) 0)
     = [''signal_variance'', ''continuous_length_scale_squared'',
        ''categorical_length_scale_squared'', ''linear_slope_amplitude'', ''linear_shift'',
        ''mean_fn'', ''observation_noise_variance'', ''task_kernel_scale'']"
proof -
  note t = linear_term [of example_task_params 2 example_gp None "\<lambda>i. real i" "\<lambda>i. real i"
      example_prim "ContinuousAndCategoricalValues [0.5, 7] [1]"
      "ContinuousAndCategoricalValues [0.25, 9] [2]"]
  have n: "map name (declarations (call example_task_params (example_gp\<lparr>linear_coef := None\<rparr>)
             None) (\<lambda>i. real i) 0)
      = [''signal_variance'', ''continuous_length_scale_squared'',
        ''categorical_length_scale_squared'', ''observation_noise_variance'',
        ''task_kernel_scale'']"
    by (simp add: names_call base_schedule_def task_declarations_def example_gp_def
        example_task_params_def)
  from t have d: "declarations (call example_task_params (example_gp\<lparr>linear_coef := Some 2\<rparr>)
        None) (\<lambda>i. real i) 0
     = take 3 (declarations (call example_task_params (example_gp\<lparr>linear_coef := None\<rparr>) None)
         (\<lambda>i. real i) 0)
       @ take 3 (drop 3 (declarations
           (call example_task_params (example_gp\<lparr>linear_coef := Some 2\<rparr>) None)
           (\<lambda>i. real i) 0))
       @ drop 3 (declarations (call example_task_params (example_gp\<lparr>linear_coef := None\<rparr>)
           None) (\<lambda>i. real i) 0)"
    by blast
  from t have m: "map name (take 3 (drop 3 (declarations
           (call example_task_params (example_gp\<lparr>linear_coef := Some 2\<rparr>) None)
           (\<lambda>i. real i) 0)))
     = [''linear_slope_amplitude'', ''linear_shift'', ''mean_fn'']"
    by blast
  have "map name (declarations (call example_task_params (example_gp\<lparr>linear_coef := Some 2\<rparr>)
        None) (\<lambda>i. real i) 0)
     = take 3 (map name (declarations (call example_task_params
           (example_gp\<lparr>linear_coef := None\<rparr>) None) (\<lambda>i. real i) 0))
       @ [''linear_slope_amplitude'', ''linear_shift'', ''mean_fn'']
       @ drop 3 (map name (declarations (call example_task_params
           (example_gp\<lparr>linear_coef := None\<rparr>) None) (\<lambda>i. real i) 0))"
    by (subst d) (simp only: map_append m take_map drop_map)
  with n show ?thesis by simp
qed

theorem linear_slope_domain_counterexample:
  "build_model \<lparr>features = example_inputs, labels = example_labels\<rparr> True (Some 1) (SEPARABLE 0)
     = Inr example_gp
   \<and> name (declarations (call example_task_params example_gp (Some example_inputs))
        (\<lambda>i. real i) 0 ! 3) = ''linear_slope_amplitude''
   \<and> map_option bounds (constraint
        (declarations (call example_task_params example_gp (Some example_inputs))
           (\<lambda>i. real i) 0 ! 3))
       = Some (Scalar (999999999 / 10 ^ 12), Scalar (10000000000001 / 10 ^ 12))
   \<and> map_option bounds (constraint
        (declarations (call example_task_params example_gp (Some example_inputs))
           (\<lambda>i. real i) 0 ! 3))
       \<noteq> Some (Scalar 0.001, Scalar 10)"
  by (simp add: build_model_total example_gp_def example_inputs_def example_labels_def
      declarations_call linear_declarations_def linear_slope_amplitude_parameter_def
      bounds_eq eval_nat_numeral)

subsection \<open>The declared domains\<close>

text \<open>
  C8.  The first three declarations and the declaration of the observation noise carry
  the domains \<open>[1e-3, 10]\<close> for the signal variance, \<open>[1e-2, 100]\<close> in each continuous
  and in each categorical dimension for the length scales, and \<open>[1e-10, 1]\<close> for the
  observation noise variance, each bound moved outwards by the boundary epsilon, and
  each with a \<^verbatim>\<open>SoftClip\<close> transform that has the bounds of its domain.
\<close>

theorem declared_domains:
  "map (\<lambda>d. (name d, constraint d))
     (take 3 (declarations (call tp self inp) supply 0))
     = [(''signal_variance'',
         Some \<lparr>bounds = (Scalar (0.001 - boundary_epsilon self),
                          Scalar (10 + boundary_epsilon self)),
               bijector = SoftClip (Scalar (0.001 - boundary_epsilon self))
                          (Scalar (10 + boundary_epsilon self)) 0.01\<rparr>),
        (''continuous_length_scale_squared'',
         Some \<lparr>bounds =
                 (Array (replicate (continuous (dim self)) (0.01 - boundary_epsilon self)),
                  Array (replicate (continuous (dim self)) (100 + boundary_epsilon self))),
               bijector = SoftClip
                 (Array (replicate (continuous (dim self)) (0.01 - boundary_epsilon self)))
                 (Array (replicate (continuous (dim self)) (100 + boundary_epsilon self)))
                 0.01\<rparr>),
        (''categorical_length_scale_squared'',
         Some \<lparr>bounds =
                 (Array (replicate (categorical (dim self)) (0.01 - boundary_epsilon self)),
                  Array (replicate (categorical (dim self)) (100 + boundary_epsilon self))),
               bijector = SoftClip
                 (Array (replicate (categorical (dim self)) (0.01 - boundary_epsilon self)))
                 (Array (replicate (categorical (dim self)) (100 + boundary_epsilon self)))
                 0.01\<rparr>)]
   \<and> map (\<lambda>d. (name d, constraint d))
       (filter (\<lambda>d. name d = ''observation_noise_variance'')
          (take (length (base_schedule self)) (declarations (call tp self inp) supply 0)))
     = [(''observation_noise_variance'',
         Some \<lparr>bounds = (Scalar (1 / 10 ^ 10 - boundary_epsilon self),
                          Scalar (1 + boundary_epsilon self)),
               bijector = SoftClip (Scalar (1 / 10 ^ 10 - boundary_epsilon self))
                          (Scalar (1 + boundary_epsilon self)) 0.01\<rparr>)]"
  by (simp add: declarations_call linear_declarations_def base_schedule_def
      signal_variance_parameter_def continuous_length_scale_squared_parameter_def
      categorical_length_scale_squared_parameter_def observation_noise_variance_parameter_def
      linear_slope_amplitude_parameter_def linear_shift_parameter_def mean_fn_parameter_def
      bounds_eq split: option.split)

theorem declared_domains_witness:
  "map (\<lambda>d. (name d, map_option bounds (constraint d)))
     (take 3 (declarations
        (call example_task_params (example_gp\<lparr>boundary_epsilon := 0\<rparr>) None) (\<lambda>i. real i) 0))
     = [(''signal_variance'', Some (Scalar 0.001, Scalar 10)),
        (''continuous_length_scale_squared'', Some (Array [0.01, 0.01], Array [100, 100])),
        (''categorical_length_scale_squared'', Some (Array [0.01], Array [100]))]"
proof -
  note t = declared_domains
    [of example_task_params "example_gp\<lparr>boundary_epsilon := 0\<rparr>" None "\<lambda>i. real i"]
  from t have "map (\<lambda>d. (name d, constraint d))
     (take 3 (declarations
        (call example_task_params (example_gp\<lparr>boundary_epsilon := 0\<rparr>) None) (\<lambda>i. real i) 0))
     = [(''signal_variance'',
         Some \<lparr>bounds = (Scalar 0.001, Scalar 10),
               bijector = SoftClip (Scalar 0.001) (Scalar 10) 0.01\<rparr>),
        (''continuous_length_scale_squared'',
         Some \<lparr>bounds = (Array [0.01, 0.01], Array [100, 100]),
               bijector = SoftClip (Array [0.01, 0.01]) (Array [100, 100]) 0.01\<rparr>),
        (''categorical_length_scale_squared'',
         Some \<lparr>bounds = (Array [0.01], Array [100]),
               bijector = SoftClip (Array [0.01]) (Array [100]) 0.01\<rparr>)]"
    by (simp add: example_gp_def eval_nat_numeral)
  then have "map (\<lambda>p. (fst p, map_option bounds (snd p))) (map (\<lambda>d. (name d, constraint d))
     (take 3 (declarations
        (call example_task_params (example_gp\<lparr>boundary_epsilon := 0\<rparr>) None) (\<lambda>i. real i) 0)))
     = [(''signal_variance'', Some (Scalar 0.001, Scalar 10)),
        (''continuous_length_scale_squared'', Some (Array [0.01, 0.01], Array [100, 100])),
        (''categorical_length_scale_squared'', Some (Array [0.01], Array [100]))]"
    by simp
  then show ?thesis by (simp add: comp_def)
qed

subsection \<open>Dimensions that are absent\<close>

text \<open>
  C6.  Two inputs with the same masks that differ only in the raw values of feature
  dimensions flagged as missing give the same log-density for the distribution that
  \<^verbatim>\<open>__call__\<close> returns, whatever the primitive kernels and the density computation are:
  the masked kernel sees a zero in those dimensions.
\<close>

theorem masked_dimensions_noninterference:
  assumes "list_all2 (same_off_missing (snd (is_missing (continuous inp))))
             (rows (padded_array (continuous inp))) cont'"
    and "list_all2 (same_off_missing (snd (is_missing (categorical inp))))
             (rows (padded_array (categorical inp))) cat'"
  shows "log_prob prim density (outcome (call tp self (Some inp)) supply 0) y
         = log_prob prim density
             (outcome (call tp self
                (Some \<lparr>continuous = perturb_missing (continuous inp) cont',
                       categorical = perturb_missing (categorical inp) cat'\<rparr>)) supply 0) y"
proof -
  let ?mc = "snd (is_missing (continuous inp))" and ?mk = "snd (is_missing (categorical inp))"
  let ?p = "ContinuousAndCategoricalValues (padded_array (continuous inp))
              (padded_array (categorical inp))"
  let ?p' = "ContinuousAndCategoricalValues ((padded_array (continuous inp))\<lparr>rows := cont'\<rparr>)
              ((padded_array (categorical inp))\<lparr>rows := cat'\<rparr>)"
  have e: "map (mask_point ?mc ?mk) (points ?p) = map (mask_point ?mc ?mk) (points ?p')"
    by (simp add: points_masked mask_rows_same [OF assms(1)] mask_rows_same [OF assms(2)])
  show ?thesis
    by (cases "linear_coef self")
      (simp_all add: outcome_call mask_inputs_def perturb_missing_def log_prob_masked [OF e])
qed

theorem masked_dimensions_noninterference_witness:
  "list_all2 (same_off_missing (snd (is_missing (continuous example_inputs))))
     (rows (padded_array (continuous example_inputs))) [[0.5, 100], [0.25, - 3]]
   \<and> list_all2 (same_off_missing (snd (is_missing (categorical example_inputs))))
     (rows (padded_array (categorical example_inputs))) [[1], [2]]
   \<and> log_prob example_prim example_density
        (outcome (call example_task_params example_gp (Some example_inputs)) (\<lambda>i. real i) 0)
        example_labels
     = log_prob example_prim example_density
        (outcome (call example_task_params example_gp
           (Some \<lparr>continuous = perturb_missing (continuous example_inputs)
                                 [[0.5, 100], [0.25, - 3]],
                  categorical = perturb_missing (categorical example_inputs) [[1], [2]]\<rparr>))
           (\<lambda>i. real i) 0)
        example_labels"
proof -
  have c: "list_all2 (same_off_missing (snd (is_missing (continuous example_inputs))))
     (rows (padded_array (continuous example_inputs))) [[0.5, 100], [0.25, - 3]]"
    by (simp add: example_inputs_def)
  have k: "list_all2 (same_off_missing (snd (is_missing (categorical example_inputs))))
     (rows (padded_array (categorical example_inputs))) [[1], [2]]"
    by (simp add: example_inputs_def)
  from c k masked_dimensions_noninterference
      [OF c k, of example_prim example_density example_task_params example_gp "\<lambda>i. real i"
         example_labels]
  show ?thesis by (simp only: simp_thms)
qed

end
